theory Spec2Isabelle
  imports Complex_Main "HOL-Library.Sublist"
begin

section \<open>The event-management API of server/app.py\<close>

text \<open>
  The program is a Flask application: seven request handlers over four SQLAlchemy tables
  in an SQLite file. Each handler is embedded as a function from the parsed JSON body and
  the database to an outcome and the database after the request.

  The storage layer is modelled from the column declarations of the source:
  \<^verbatim>\<open>primary_key\<close> (a fresh id on insert), \<^verbatim>\<open>nullable=False\<close>,
  \<^verbatim>\<open>unique=True\<close>, \<^verbatim>\<open>default=\<close>, and the column type
  (\<^verbatim>\<open>String\<close>, \<^verbatim>\<open>Text\<close>, \<^verbatim>\<open>Integer\<close>, \<^verbatim>\<open>Float\<close>), which
  decides whether a Python value can be bound at all and what the column holds afterwards.
  An exception of the storage layer leaves the handler uncaught and stores nothing. A table
  is the list of its rows in the order of insertion. Foreign keys are not checked: SQLite
  does not check them unless asked to.
\<close>

subsection \<open>JSON values and Python truthiness\<close>

text \<open>
  The values \<^verbatim>\<open>request.get_json()\<close> returns. A JSON object is an association list,
  read with \<open>map_of\<close>. A finite float is represented by the real number it is;
  \<^verbatim>\<open>NaN\<close>, \<^verbatim>\<open>Infinity\<close> and \<^verbatim>\<open>-Infinity\<close>, which Python's parser
  accepts, are values of their own.
\<close>

datatype json =
    JNull
  | JBool bool
  | JInt int
  | JFloat real
  | JNaN
  | JInfinity
  | JNegInfinity
  | JStr string
  | JList "json list"
  | JDict "(string \<times> json) list"

text \<open>\<^verbatim>\<open>bool(v)\<close>: what \<^verbatim>\<open>not v\<close> and \<^verbatim>\<open>if v\<close> test.\<close>

fun truthy :: "json \<Rightarrow> bool" where
  "truthy JNull = False"
| "truthy (JBool b) = b"
| "truthy (JInt i) = (i \<noteq> 0)"
| "truthy (JFloat x) = (x \<noteq> 0)"
| "truthy JNaN = True"
| "truthy JInfinity = True"
| "truthy JNegInfinity = True"
| "truthy (JStr s) = (s \<noteq> [])"
| "truthy (JList vs) = (vs \<noteq> [])"
| "truthy (JDict kvs) = (kvs \<noteq> [])"

text \<open>\<^verbatim>\<open>data.get(k)\<close> and \<^verbatim>\<open>data.get(k, d)\<close>.\<close>

definition dict_get :: "(string \<times> json) list \<Rightarrow> string \<Rightarrow> json" where
  "dict_get data k = (case map_of data k of None \<Rightarrow> JNull | Some v \<Rightarrow> v)"

definition dict_get_default :: "(string \<times> json) list \<Rightarrow> string \<Rightarrow> json \<Rightarrow> json" where
  "dict_get_default data k d = (case map_of data k of None \<Rightarrow> d | Some v \<Rightarrow> v)"

text \<open>The body with one field left out.\<close>

definition dict_del :: "string \<Rightarrow> (string \<times> json) list \<Rightarrow> (string \<times> json) list" where
  "dict_del k data = filter (\<lambda>kv. fst kv \<noteq> k) data"

subsection \<open>Outcomes\<close>

text \<open>
  The exceptions that can leave a handler. \<open>StatementError\<close> is SQLAlchemy's wrapper of
  a failure while it prepares the parameters of a statement; \<open>ProgrammingError\<close> and
  \<open>OverflowError\<close> are the driver refusing to bind a value; \<open>IntegrityError\<close> is a
  violated constraint.
\<close>

datatype exn =
    AttributeError
  | TypeError
  | ValueError
  | StatementError
  | ProgrammingError
  | OverflowError
  | IntegrityError

text \<open>
  \<open>Reply body status\<close> is \<^verbatim>\<open>jsonify(body), status\<close> (status 200 when the handler
  gives none), \<open>Abort\<close> is \<^verbatim>\<open>abort(404)\<close> of \<^verbatim>\<open>get_or_404\<close>, and
  \<open>Raised\<close> is an exception that leaves the handler.
\<close>

datatype outcome = Reply json nat | Abort nat | Raised exn

text \<open>Sequencing of steps that may raise.\<close>

definition and_then :: "exn + 'a \<Rightarrow> ('a \<Rightarrow> exn + 'b) \<Rightarrow> exn + 'b" where
  "and_then r f = (case r of Inl e \<Rightarrow> Inl e | Inr x \<Rightarrow> f x)"

subsection \<open>The tables\<close>

text \<open>
  A column holds what SQLite stored: \<open>JNull\<close> for NULL, \<open>JInt\<close> for an INTEGER,
  \<open>JFloat\<close> (or an infinity) for a REAL, \<open>JStr\<close> for a TEXT.
\<close>

record user =
  user_id :: int
  user_username :: json
  user_password :: json
  user_role :: json

record 'd event =
  event_id :: int
  event_title :: json
  event_description :: json
  event_date :: "'d option"
  event_location :: json
  event_price :: json
  event_organizer_id :: json

record registration =
  registration_id :: int
  registration_attendee_id :: json
  registration_event_id :: json
  registration_registration_type :: json

record 'd payment =
  payment_id :: int
  payment_user_id :: json
  payment_event_id :: json
  payment_amount :: json
  payment_payment_method :: json
  payment_status :: json
  payment_timestamp :: "'d option"

text \<open>The type \<open>'d\<close> is \<^verbatim>\<open>datetime\<close>.\<close>

record 'd db =
  users :: "user list"
  events :: "'d event list"
  registrations :: "registration list"
  payments :: "'d payment list"

text \<open>\<^verbatim>\<open>db.create_all()\<close> on a new file: four empty tables.\<close>

definition create_tables :: "'d db" where
  "create_tables = \<lparr>users = [], events = [], registrations = [], payments = []\<rparr>"

text \<open>An integer primary key: one more than the largest id of the table.\<close>

definition next_id :: "int list \<Rightarrow> int" where
  "next_id ids = fold max ids 0 + 1"

text \<open>\<^verbatim>\<open>default=d\<close>: a column whose attribute is None on insert gets \<open>d\<close>.\<close>

definition column_default :: "json \<Rightarrow> json \<Rightarrow> json" where
  "column_default d v = (if v = JNull then d else v)"

subsection \<open>Binding Python values to typed columns\<close>

text \<open>
  What the libraries do to a value on its way into a column is part of what the handlers
  do, since they pass on whatever the request holds. The structure is modelled; the
  conversions between numbers and text, which are the libraries' own, are parameters:
  \<^item> \<open>text_affinity\<close>: the TEXT SQLite makes of a REAL;
  \<^item> \<open>numeric_affinity\<close>: what SQLite stores in an INTEGER column for a TEXT or a
    REAL (an INTEGER, a REAL, or the text unchanged);
  \<^item> \<open>py_float\<close>: Python's \<^verbatim>\<open>float(v)\<close> for a string or an integer beyond
    \<open>2 ^ 53\<close>, \<open>None\<close> when it raises;
  \<^item> \<open>stored_datetime\<close>: a \<^verbatim>\<open>datetime\<close> as it is read back from a
    \<^verbatim>\<open>DateTime\<close> column.
\<close>

record 'd driver =
  text_affinity :: "json \<Rightarrow> string"
  numeric_affinity :: "json \<Rightarrow> json"
  py_float :: "json \<Rightarrow> json option"
  stored_datetime :: "'d \<Rightarrow> 'd"

text \<open>The decimal text of an integer.\<close>

fun digits :: "nat \<Rightarrow> string" where
  "digits n =
     (if n < 10 then [''0123456789'' ! n]
      else digits (n div 10) @ [''0123456789'' ! (n mod 10)])"

declare digits.simps [simp del]

definition decimal :: "int \<Rightarrow> string" where
  "decimal i = (if i < 0 then CHR ''-'' # digits (nat (- i)) else digits (nat i))"

text \<open>The integers the driver can bind: those of 64 bits.\<close>

definition int64 :: "int \<Rightarrow> bool" where
  "int64 i = (- 9223372036854775808 \<le> i \<and> i < 9223372036854775808)"

text \<open>
  A value bound to a \<^verbatim>\<open>String\<close> or \<^verbatim>\<open>Text\<close> column, of TEXT affinity. The
  driver binds None, integers (booleans are integers), floats and strings; NaN is bound
  as NULL; a list or an object cannot be bound. A number is stored as its text.
\<close>

fun bind_String :: "'d driver \<Rightarrow> json \<Rightarrow> exn + json" where
  "bind_String sq JNull = Inr JNull"
| "bind_String sq (JBool b) = Inr (JStr (if b then ''1'' else ''0''))"
| "bind_String sq (JInt i) = (if int64 i then Inr (JStr (decimal i)) else Inl OverflowError)"
| "bind_String sq (JFloat x) = Inr (JStr (text_affinity sq (JFloat x)))"
| "bind_String sq JNaN = Inr JNull"
| "bind_String sq JInfinity = Inr (JStr (text_affinity sq JInfinity))"
| "bind_String sq JNegInfinity = Inr (JStr (text_affinity sq JNegInfinity))"
| "bind_String sq (JStr s) = Inr (JStr s)"
| "bind_String sq (JList vs) = Inl ProgrammingError"
| "bind_String sq (JDict kvs) = Inl ProgrammingError"

text \<open>A value bound to an \<^verbatim>\<open>Integer\<close> column, of INTEGER affinity.\<close>

fun bind_Integer :: "'d driver \<Rightarrow> json \<Rightarrow> exn + json" where
  "bind_Integer sq JNull = Inr JNull"
| "bind_Integer sq (JBool b) = Inr (JInt (if b then 1 else 0))"
| "bind_Integer sq (JInt i) = (if int64 i then Inr (JInt i) else Inl OverflowError)"
| "bind_Integer sq (JFloat x) = Inr (numeric_affinity sq (JFloat x))"
| "bind_Integer sq JNaN = Inr JNull"
| "bind_Integer sq JInfinity = Inr (numeric_affinity sq JInfinity)"
| "bind_Integer sq JNegInfinity = Inr (numeric_affinity sq JNegInfinity)"
| "bind_Integer sq (JStr s) = Inr (numeric_affinity sq (JStr s))"
| "bind_Integer sq (JList vs) = Inl ProgrammingError"
| "bind_Integer sq (JDict kvs) = Inl ProgrammingError"

text \<open>
  A \<^verbatim>\<open>Float\<close> column: SQLAlchemy first applies \<^verbatim>\<open>float\<close> to a value that is
  not None, and a failure of that is a \<open>StatementError\<close>; the float is then bound, NaN as
  NULL.
\<close>

fun to_float :: "'d driver \<Rightarrow> json \<Rightarrow> exn + json" where
  "to_float sq JNull = Inr JNull"
| "to_float sq (JBool b) = Inr (JFloat (if b then 1 else 0))"
| "to_float sq (JInt i) =
     (if \<bar>i\<bar> \<le> 9007199254740992 then Inr (JFloat (of_int i))
      else (case py_float sq (JInt i) of None \<Rightarrow> Inl StatementError | Some f \<Rightarrow> Inr f))"
| "to_float sq (JFloat x) = Inr (JFloat x)"
| "to_float sq JNaN = Inr JNaN"
| "to_float sq JInfinity = Inr JInfinity"
| "to_float sq JNegInfinity = Inr JNegInfinity"
| "to_float sq (JStr s) =
     (case py_float sq (JStr s) of None \<Rightarrow> Inl StatementError | Some f \<Rightarrow> Inr f)"
| "to_float sq (JList vs) = Inl StatementError"
| "to_float sq (JDict kvs) = Inl StatementError"

definition bind_Float :: "json \<Rightarrow> json" where
  "bind_Float f = (if f = JNaN then JNull else f)"

text \<open>
  \<^verbatim>\<open>filter_by(column=v)\<close> on a \<^verbatim>\<open>String\<close> column: the test a stored value has
  to pass. None is looked up with \<^verbatim>\<open>IS NULL\<close>; anything else is bound and compared
  as text, so that a number matches the stored text of its digits; NaN, bound as NULL,
  equals nothing.
\<close>

definition filter_String :: "'d driver \<Rightarrow> json \<Rightarrow> exn + (json \<Rightarrow> bool)" where
  "filter_String sq v =
     (if v = JNaN then Inr (\<lambda>stored. False)
      else and_then (bind_String sq v) (\<lambda>w. Inr (\<lambda>stored. stored = w)))"

subsection \<open>Inserting a row\<close>

text \<open>
  \<^verbatim>\<open>db.session.add(row); db.session.commit()\<close> in three stages, and the first failure
  is the exception of the commit: SQLAlchemy prepares the parameters (\<^verbatim>\<open>float\<close> for
  a \<^verbatim>\<open>Float\<close> column), the driver binds them in the order of the columns, SQLite
  checks the constraints. The functions \<open>user_row\<close>, \<open>event_row\<close>,
  \<open>registration_row\<close> and \<open>payment_row\<close> are the first two stages: the row as it
  would be stored.
\<close>

definition user_row :: "'d driver \<Rightarrow> json \<Rightarrow> json \<Rightarrow> json \<Rightarrow> 'd db \<Rightarrow> exn + user" where
  "user_row sq username password role s =
     and_then (bind_String sq username) (\<lambda>u.
     and_then (bind_String sq password) (\<lambda>p.
     and_then (bind_String sq (column_default (JStr ''user'') role)) (\<lambda>r.
       Inr \<lparr>user_id = next_id (map user_id (users s)),
            user_username = u,
            user_password = p,
            user_role = r\<rparr>)))"

definition add_user :: "'d driver \<Rightarrow> json \<Rightarrow> json \<Rightarrow> json \<Rightarrow> 'd db \<Rightarrow> exn + 'd db" where
  "add_user sq username password role s =
     and_then (user_row sq username password role s) (\<lambda>row.
       if user_username row = JNull \<or> user_password row = JNull then Inl IntegrityError
       else if user_username row \<in> set (map user_username (users s)) then Inl IntegrityError
       else Inr (s\<lparr>users := users s @ [row]\<rparr>))"

definition event_row ::
  "'d driver \<Rightarrow> json \<Rightarrow> json \<Rightarrow> 'd option \<Rightarrow> json \<Rightarrow> json \<Rightarrow> json \<Rightarrow> 'd db \<Rightarrow> exn + 'd event" where
  "event_row sq title description date location price organizer_id s =
     and_then (to_float sq (column_default (JFloat 0) price)) (\<lambda>f.
     and_then (bind_String sq title) (\<lambda>t.
     and_then (bind_String sq description) (\<lambda>d.
     and_then (bind_String sq location) (\<lambda>l.
     and_then (bind_Integer sq organizer_id) (\<lambda>org.
       Inr \<lparr>event_id = next_id (map event_id (events s)),
            event_title = t,
            event_description = d,
            event_date = map_option (stored_datetime sq) date,
            event_location = l,
            event_price = bind_Float f,
            event_organizer_id = org\<rparr>)))))"

definition add_event ::
  "'d driver \<Rightarrow> json \<Rightarrow> json \<Rightarrow> 'd option \<Rightarrow> json \<Rightarrow> json \<Rightarrow> json \<Rightarrow> 'd db \<Rightarrow> exn + 'd db" where
  "add_event sq title description date location price organizer_id s =
     and_then (event_row sq title description date location price organizer_id s) (\<lambda>row.
       if event_title row = JNull \<or> event_organizer_id row = JNull then Inl IntegrityError
       else Inr (s\<lparr>events := events s @ [row]\<rparr>))"

definition registration_row ::
  "'d driver \<Rightarrow> json \<Rightarrow> json \<Rightarrow> json \<Rightarrow> 'd db \<Rightarrow> exn + registration" where
  "registration_row sq attendee_id event_id' registration_type s =
     and_then (bind_Integer sq attendee_id) (\<lambda>a.
     and_then (bind_Integer sq event_id') (\<lambda>e.
     and_then (bind_String sq registration_type) (\<lambda>t.
       Inr \<lparr>registration_id = next_id (map registration_id (registrations s)),
            registration_attendee_id = a,
            registration_event_id = e,
            registration_registration_type = t\<rparr>)))"

definition add_registration :: "'d driver \<Rightarrow> json \<Rightarrow> json \<Rightarrow> json \<Rightarrow> 'd db \<Rightarrow> exn + 'd db" where
  "add_registration sq attendee_id event_id' registration_type s =
     and_then (registration_row sq attendee_id event_id' registration_type s) (\<lambda>row.
       if registration_attendee_id row = JNull \<or> registration_event_id row = JNull
       then Inl IntegrityError
       else Inr (s\<lparr>registrations := registrations s @ [row]\<rparr>))"

text \<open>
  The handler gives no timestamp, so the column's \<^verbatim>\<open>default=datetime.utcnow\<close>
  sets it to the time of the insert, \<open>now\<close>.
\<close>

definition payment_row ::
  "'d driver \<Rightarrow> 'd \<Rightarrow> json \<Rightarrow> json \<Rightarrow> json \<Rightarrow> json \<Rightarrow> json \<Rightarrow> 'd db \<Rightarrow> exn + 'd payment" where
  "payment_row sq now user_id' event_id' amount payment_method status s =
     and_then (to_float sq amount) (\<lambda>f.
     and_then (bind_Integer sq user_id') (\<lambda>u.
     and_then (bind_Integer sq event_id') (\<lambda>e.
     and_then (bind_String sq payment_method) (\<lambda>m.
     and_then (bind_String sq (column_default (JStr ''pending'') status)) (\<lambda>st.
       Inr \<lparr>payment_id = next_id (map payment_id (payments s)),
            payment_user_id = u,
            payment_event_id = e,
            payment_amount = bind_Float f,
            payment_payment_method = m,
            payment_status = st,
            payment_timestamp = Some (stored_datetime sq now)\<rparr>)))))"

definition add_payment ::
  "'d driver \<Rightarrow> 'd \<Rightarrow> json \<Rightarrow> json \<Rightarrow> json \<Rightarrow> json \<Rightarrow> json \<Rightarrow> 'd db \<Rightarrow> exn + 'd db" where
  "add_payment sq now user_id' event_id' amount payment_method status s =
     and_then (payment_row sq now user_id' event_id' amount payment_method status s) (\<lambda>row.
       if payment_user_id row = JNull \<or> payment_event_id row = JNull
          \<or> payment_amount row = JNull
       then Inl IntegrityError
       else Inr (s\<lparr>payments := payments s @ [row]\<rparr>))"

subsection \<open>The handlers\<close>

text \<open>
  A body that is not a JSON object has no \<^verbatim>\<open>get\<close>: the first
  \<^verbatim>\<open>data.get\<close> raises AttributeError.
\<close>

definition register_user :: "'d driver \<Rightarrow> json \<Rightarrow> 'd db \<Rightarrow> outcome \<times> 'd db" where
  "register_user sq body s =
     (case body of
        JDict data \<Rightarrow>
          (let username = dict_get data ''username'';
               password = dict_get data ''password'';
               role = dict_get_default data ''role'' (JStr ''user'')
           in if \<not> truthy username \<or> \<not> truthy password
              then (Reply (JDict [(''error'', JStr ''Missing username or password'')]) 400, s)
              else (case filter_String sq username of
                      Inl e \<Rightarrow> (Raised e, s)
                    | Inr same_username \<Rightarrow>
                        if find (\<lambda>u. same_username (user_username u)) (users s) \<noteq> None
                        then (Reply (JDict [(''error'', JStr ''Username already exists'')]) 400, s)
                        else (case add_user sq username password role s of
                                Inl e \<Rightarrow> (Raised e, s)
                              | Inr s' \<Rightarrow>
                                  (Reply (JDict [(''message'',
                                     JStr ''User registered successfully'')]) 200, s'))))
      | _ \<Rightarrow> (Raised AttributeError, s))"

definition login_user :: "'d driver \<Rightarrow> json \<Rightarrow> 'd db \<Rightarrow> outcome \<times> 'd db" where
  "login_user sq body s =
     (case body of
        JDict data \<Rightarrow>
          (let username = dict_get data ''username'';
               password = dict_get data ''password''
           in case filter_String sq username of
                Inl e \<Rightarrow> (Raised e, s)
              | Inr same_username \<Rightarrow>
                  (case filter_String sq password of
                     Inl e \<Rightarrow> (Raised e, s)
                   | Inr same_password \<Rightarrow>
                       (case find (\<lambda>u. same_username (user_username u)
                                       \<and> same_password (user_password u)) (users s) of
                          Some u \<Rightarrow>
                            (Reply (JDict
                               [(''message'', JStr ''Login successful''),
                                (''user'', JDict [(''id'', JInt (user_id u)),
                                                  (''username'', user_username u),
                                                  (''role'', user_role u)])]) 200, s)
                        | None \<Rightarrow>
                            (Reply (JDict [(''error'', JStr ''Invalid credentials'')]) 400, s))))
      | _ \<Rightarrow> (Raised AttributeError, s))"

text \<open>
  The dictionary both \<^verbatim>\<open>get_events\<close> and \<^verbatim>\<open>get_event\<close> build for a row.
  \<open>isoformat\<close> is \<^verbatim>\<open>datetime.isoformat\<close>, a parameter.
\<close>

definition event_dict :: "('d \<Rightarrow> string) \<Rightarrow> 'd event \<Rightarrow> json" where
  "event_dict isoformat e =
     JDict [(''id'', JInt (event_id e)),
            (''title'', event_title e),
            (''description'', event_description e),
            (''date'', (case event_date e of Some d \<Rightarrow> JStr (isoformat d) | None \<Rightarrow> JNull)),
            (''location'', event_location e),
            (''price'', event_price e),
            (''organizer_id'', event_organizer_id e)]"

text \<open>The loop of \<^verbatim>\<open>get_events\<close>: \<open>event_list\<close> is the accumulator.\<close>

fun get_events_loop :: "('d \<Rightarrow> string) \<Rightarrow> 'd event list \<Rightarrow> json list \<Rightarrow> json list" where
  "get_events_loop isoformat [] event_list = event_list"
| "get_events_loop isoformat (e # es) event_list =
     get_events_loop isoformat es (event_list @ [event_dict isoformat e])"

definition get_events :: "('d \<Rightarrow> string) \<Rightarrow> 'd db \<Rightarrow> outcome \<times> 'd db" where
  "get_events isoformat s = (Reply (JList (get_events_loop isoformat (events s) [])) 200, s)"

definition get_event :: "('d \<Rightarrow> string) \<Rightarrow> int \<Rightarrow> 'd db \<Rightarrow> outcome \<times> 'd db" where
  "get_event isoformat eid s =
     (case find (\<lambda>e. event_id e = eid) (events s) of
        None \<Rightarrow> (Abort 404, s)
      | Some e \<Rightarrow> (Reply (event_dict isoformat e) 200, s))"

text \<open>
  \<^verbatim>\<open>datetime.fromisoformat(date_str) if date_str else None\<close>. \<open>fromisoformat\<close> is
  a parameter: \<open>None\<close> is its ValueError. Given anything but a string it raises
  TypeError, which the handler does not catch.
\<close>

definition event_date_of :: "(string \<Rightarrow> 'd option) \<Rightarrow> json \<Rightarrow> exn + 'd option" where
  "event_date_of fromisoformat date_str =
     (if truthy date_str
      then (case date_str of
              JStr ds \<Rightarrow> (case fromisoformat ds of None \<Rightarrow> Inl ValueError | Some d \<Rightarrow> Inr (Some d))
            | _ \<Rightarrow> Inl TypeError)
      else Inr None)"

definition create_event ::
  "'d driver \<Rightarrow> (string \<Rightarrow> 'd option) \<Rightarrow> json \<Rightarrow> 'd db \<Rightarrow> outcome \<times> 'd db" where
  "create_event sq fromisoformat body s =
     (case body of
        JDict data \<Rightarrow>
          (let title = dict_get data ''title'';
               description = dict_get data ''description'';
               date_str = dict_get data ''date'';
               location = dict_get data ''location'';
               price = dict_get_default data ''price'' (JFloat 0);
               organizer_id = dict_get data ''organizer_id''
           in case event_date_of fromisoformat date_str of
                Inl ValueError \<Rightarrow> (Reply (JDict [(''error'', JStr ''Invalid date format'')]) 400, s)
              | Inl e \<Rightarrow> (Raised e, s)
              | Inr event_date' \<Rightarrow>
                  (case add_event sq title description event_date' location price organizer_id s of
                     Inl e \<Rightarrow> (Raised e, s)
                   | Inr s' \<Rightarrow> (Reply (JDict [(''message'', JStr ''Event created successfully'')]) 200, s')))
      | _ \<Rightarrow> (Raised AttributeError, s))"

definition register_to_event :: "'d driver \<Rightarrow> json \<Rightarrow> 'd db \<Rightarrow> outcome \<times> 'd db" where
  "register_to_event sq body s =
     (case body of
        JDict data \<Rightarrow>
          (let attendee_id = dict_get data ''attendee_id'';
               event_id' = dict_get data ''event_id'';
               registration_type = dict_get_default data ''registration_type'' (JStr ''general'')
           in if \<not> truthy attendee_id \<or> \<not> truthy event_id'
              then (Reply (JDict [(''error'', JStr ''Missing attendee_id or event_id'')]) 400, s)
              else (case add_registration sq attendee_id event_id' registration_type s of
                      Inl e \<Rightarrow> (Raised e, s)
                    | Inr s' \<Rightarrow> (Reply (JDict [(''message'', JStr ''Registration successful'')]) 200, s')))
      | _ \<Rightarrow> (Raised AttributeError, s))"

text \<open>
  The reply reads \<^verbatim>\<open>new_payment.status\<close> after the commit: the status of the row
  just stored.
\<close>

definition process_payment :: "'d driver \<Rightarrow> 'd \<Rightarrow> json \<Rightarrow> 'd db \<Rightarrow> outcome \<times> 'd db" where
  "process_payment sq now body s =
     (case body of
        JDict data \<Rightarrow>
          (let user_id' = dict_get data ''user_id'';
               event_id' = dict_get data ''event_id'';
               amount = dict_get data ''amount'';
               payment_method = dict_get data ''payment_method''
           in if \<not> (truthy user_id' \<and> truthy event_id' \<and> truthy amount \<and> truthy payment_method)
              then (Reply (JDict [(''error'', JStr ''Missing payment details'')]) 400, s)
              else (case add_payment sq now user_id' event_id' amount payment_method
                           (JStr ''successful'') s of
                      Inl e \<Rightarrow> (Raised e, s)
                    | Inr s' \<Rightarrow>
                        (Reply (JDict [(''message'', JStr ''Payment processed successfully''),
                                       (''paymentStatus'', payment_status (last (payments s')))]) 200, s')))
      | _ \<Rightarrow> (Raised AttributeError, s))"

subsection \<open>The API as a transition system\<close>

text \<open>One request to one of the seven routes; a payment carries the time it is made.\<close>

datatype 'd call =
    Register_user json
  | Login_user json
  | Get_events
  | Get_event int
  | Create_event json
  | Register_to_event json
  | Process_payment 'd json

fun api ::
  "'d driver \<Rightarrow> (string \<Rightarrow> 'd option) \<Rightarrow> ('d \<Rightarrow> string) \<Rightarrow> 'd call \<Rightarrow> 'd db \<Rightarrow> outcome \<times> 'd db" where
  "api sq fromisoformat isoformat (Register_user body) s = register_user sq body s"
| "api sq fromisoformat isoformat (Login_user body) s = login_user sq body s"
| "api sq fromisoformat isoformat Get_events s = get_events isoformat s"
| "api sq fromisoformat isoformat (Get_event eid) s = get_event isoformat eid s"
| "api sq fromisoformat isoformat (Create_event body) s = create_event sq fromisoformat body s"
| "api sq fromisoformat isoformat (Register_to_event body) s = register_to_event sq body s"
| "api sq fromisoformat isoformat (Process_payment now body) s = process_payment sq now body s"

text \<open>The states the API can reach from the empty tables.\<close>

inductive reachable ::
  "'d driver \<Rightarrow> (string \<Rightarrow> 'd option) \<Rightarrow> ('d \<Rightarrow> string) \<Rightarrow> 'd db \<Rightarrow> bool"
  for sq :: "'d driver" and fromisoformat :: "string \<Rightarrow> 'd option" and isoformat :: "'d \<Rightarrow> string" where
  reachable_init: "reachable sq fromisoformat isoformat create_tables"
| reachable_step: "reachable sq fromisoformat isoformat s \<Longrightarrow>
     reachable sq fromisoformat isoformat (snd (api sq fromisoformat isoformat c s))"

subsection \<open>A calendar date for running the handlers\<close>

text \<open>
  The handlers are parametric in the type of timestamps and in the library functions
  that read, print and store values. To run them on concrete requests, timestamps are
  instantiated with dates at midnight, written \<^verbatim>\<open>YYYY-MM-DD\<close>: the one form of
  \<^verbatim>\<open>datetime.fromisoformat\<close> that has no time part.
\<close>

type_synonym ymd = "nat \<times> nat \<times> nat"

definition digit_of :: "char \<Rightarrow> nat option" where
  "digit_of c = (let n = (of_char c :: nat) in if 48 \<le> n \<and> n \<le> 57 then Some (n - 48) else None)"

fun digits_value :: "string \<Rightarrow> nat \<Rightarrow> nat option" where
  "digits_value [] acc = Some acc"
| "digits_value (c # cs) acc =
     (case digit_of c of None \<Rightarrow> None | Some d \<Rightarrow> digits_value cs (10 * acc + d))"

definition days_in_month :: "nat \<Rightarrow> nat \<Rightarrow> nat" where
  "days_in_month y m =
     (if m = 2 then (if y mod 4 = 0 \<and> (y mod 100 \<noteq> 0 \<or> y mod 400 = 0) then 29 else 28)
      else if m = 4 \<or> m = 6 \<or> m = 9 \<or> m = 11 then 30 else 31)"

definition fromisoformat_date :: "string \<Rightarrow> ymd option" where
  "fromisoformat_date s =
     (if length s = 10 \<and> s ! 4 = CHR ''-'' \<and> s ! 7 = CHR ''-''
      then (case (digits_value (take 4 s) 0, digits_value (take 2 (drop 5 s)) 0,
                  digits_value (drop 8 s) 0) of
              (Some y, Some m, Some d) \<Rightarrow>
                if 1 \<le> y \<and> 1 \<le> m \<and> m \<le> 12 \<and> 1 \<le> d \<and> d \<le> days_in_month y m
                then Some (y, m, d) else None
            | _ \<Rightarrow> None)
      else None)"

definition two_digits :: "nat \<Rightarrow> string" where
  "two_digits n = [''0123456789'' ! (n div 10 mod 10), ''0123456789'' ! (n mod 10)]"

definition isoformat_date :: "ymd \<Rightarrow> string" where
  "isoformat_date t =
     (case t of (y, m, d) \<Rightarrow>
        two_digits (y div 100) @ two_digits y @ ''-'' @ two_digits m @ ''-'' @ two_digits d
        @ ''T00:00:00'')"

text \<open>
  The conversions, for requests that hold integers, finite floats and strings of digits:
  a string of digits is the number it writes, an integer is the float of its value, a
  float that is a whole number prints with \<^verbatim>\<open>.0\<close>, and a date at midnight is
  read back as it was stored. Other values are left alone (or refused by
  \<^verbatim>\<open>float\<close>). The concrete runs below use none of these conversions but the
  one of dates.
\<close>

definition whole_numbers :: "ymd driver" where
  "whole_numbers =
     \<lparr>text_affinity = (\<lambda>v. case v of
          JFloat x \<Rightarrow> (if of_int \<lfloor>x\<rfloor> = x then decimal \<lfloor>x\<rfloor> @ ''.0'' else ''?'')
        | _ \<Rightarrow> ''?''),
      numeric_affinity = (\<lambda>v. case v of
          JStr s \<Rightarrow> (case digits_value s 0 of
                       Some n \<Rightarrow> (if s \<noteq> [] then JInt (int n) else v)
                     | None \<Rightarrow> v)
        | JFloat x \<Rightarrow> (if of_int \<lfloor>x\<rfloor> = x \<and> \<bar>x\<bar> \<le> 9007199254740992 then JInt \<lfloor>x\<rfloor> else v)
        | _ \<Rightarrow> v),
      py_float = (\<lambda>v. case v of
          JStr s \<Rightarrow> (case digits_value s 0 of
                       Some n \<Rightarrow> (if s \<noteq> [] then Some (JFloat (of_nat n)) else None)
                     | None \<Rightarrow> None)
        | JInt i \<Rightarrow> Some (JFloat (of_int i))
        | _ \<Rightarrow> None),
      stored_datetime = (\<lambda>d. d)\<rparr>"

section \<open>Properties\<close>

subsection \<open>Auxiliary facts\<close>

lemma and_then_Inr [simp]: "and_then (Inr x) f = f x"
  by (simp add: and_then_def)

lemma and_then_Inl [simp]: "and_then (Inl e) f = Inl e"
  by (simp add: and_then_def)

lemma and_then_eq_Inr: "and_then r f = Inr y \<longleftrightarrow> (\<exists>x. r = Inr x \<and> f x = Inr y)"
  by (cases r) simp_all

lemma truthy_not_null: "truthy v \<Longrightarrow> v \<noteq> JNull"
  by (cases v) simp_all


lemma filter_String_JStr: "filter_String sq (JStr u) = Inr (\<lambda>stored. stored = JStr u)"
  by (simp add: filter_String_def)

subsection \<open>Registration and login\<close>




text \<open>
  C2 (amended). In every state in which some User row has the non-empty username \<open>u\<close>,
  a registration with username \<open>u\<close> and any password that is present and not falsy,
  equal to the stored one or not, returns 400 with the error
  \<^verbatim>\<open>Username already exists\<close> and leaves the database as it was.
\<close>

theorem register_existing_username:
  assumes "r \<in> set (users s)" and "user_username r = JStr u" and "u \<noteq> []"
    and "dict_get data ''username'' = JStr u" and "truthy (dict_get data ''password'')"
  shows "register_user sq (JDict data) s =
           (Reply (JDict [(''error'', JStr ''Username already exists'')]) 400, s)"
proof -
  have "find (\<lambda>x. user_username x = JStr u) (users s) \<noteq> None"
    using assms(1,2) by (auto simp: find_None_iff)
  then show ?thesis
    using assms(3-5) by (simp add: register_user_def filter_String_JStr)
qed

theorem register_existing_username_witness:
  "register_user whole_numbers
      (JDict [(''username'', JStr ''alice''), (''password'', JStr ''other'')])
      \<lparr>users = [\<lparr>user_id = 1, user_username = JStr ''alice'', user_password = JStr ''secret'',
                  user_role = JStr ''user''\<rparr>],
        events = [], registrations = [], payments = []\<rparr> =
     (Reply (JDict [(''error'', JStr ''Username already exists'')]) 400,
      \<lparr>users = [\<lparr>user_id = 1, user_username = JStr ''alice'', user_password = JStr ''secret'',
                  user_role = JStr ''user''\<rparr>],
        events = [], registrations = [], payments = []\<rparr>)"
  using register_existing_username
    [of "\<lparr>user_id = 1, user_username = JStr ''alice'', user_password = JStr ''secret'',
          user_role = JStr ''user''\<rparr>"
        "\<lparr>users = [\<lparr>user_id = 1, user_username = JStr ''alice'',
                     user_password = JStr ''secret'', user_role = JStr ''user''\<rparr>],
          events = [], registrations = [], payments = []\<rparr> :: ymd db"
        "''alice''"
        "[(''username'', JStr ''alice''), (''password'', JStr ''other'')]" whole_numbers]
  by (simp add: dict_get_def)

text \<open>
  C2 as stated says "any password". With an empty password the presence check, which the
  handler makes before it looks the username up, answers
  \<^verbatim>\<open>Missing username or password\<close> instead.
\<close>

theorem register_existing_username_counterexample:
  "register_user whole_numbers (JDict [(''username'', JStr ''alice''), (''password'', JStr [])])
      \<lparr>users = [\<lparr>user_id = 1, user_username = JStr ''alice'', user_password = JStr ''secret'',
                  user_role = JStr ''user''\<rparr>],
        events = [], registrations = [], payments = []\<rparr> =
     (Reply (JDict [(''error'', JStr ''Missing username or password'')]) 400,
      \<lparr>users = [\<lparr>user_id = 1, user_username = JStr ''alice'', user_password = JStr ''secret'',
                  user_role = JStr ''user''\<rparr>],
        events = [], registrations = [], payments = []\<rparr>)"
  by (simp add: register_user_def dict_get_def)




subsection \<open>Creating events\<close>

lemma map_of_dict_del: "map_of (dict_del k data) k' = (if k' = k then None else map_of data k')"
  by (induction data) (auto simp: dict_del_def)

lemma dict_get_dict_del: "dict_get (dict_del k data) k' = (if k' = k then JNull else dict_get data k')"
  by (simp add: dict_get_def map_of_dict_del)

lemma dict_get_default_dict_del:
  "k' \<noteq> k \<Longrightarrow> dict_get_default (dict_del k data) k' d = dict_get_default data k' d"
  by (simp add: dict_get_default_def map_of_dict_del)

lemma event_row_title:
  "event_row sq title description date location price organizer_id s = Inr row \<Longrightarrow>
   bind_String sq title = Inr (event_title row)
   \<and> bind_Integer sq organizer_id = Inr (event_organizer_id row)
   \<and> event_date row = map_option (stored_datetime sq) date"
  by (auto simp: event_row_def and_then_eq_Inr)

lemma add_event_null:
  "title = JNull \<or> organizer_id = JNull \<Longrightarrow>
   add_event sq title description date location price organizer_id s =
     (case event_row sq title description date location price organizer_id s of
        Inl e \<Rightarrow> Inl e
      | Inr row \<Rightarrow> Inl IntegrityError)"
  by (auto simp: add_event_def split: sum.splits dest!: event_row_title)

text \<open>
  C4 (amended). A create-event call whose body omits \<open>title\<close> or \<open>organizer_id\<close>
  (or gives null for it) is not rejected by any validation of the handler, but it does not
  persist a row either: the Event table declares both columns \<^verbatim>\<open>nullable=False\<close>.
  The call never returns the success message and leaves the database as it was; and
  whenever its date is absent, falsy or parses and its other fields can be bound to their
  columns (\<open>event_row\<close> gives a row), its outcome is the integrity error of the commit,
  which the handler does not catch.
\<close>

theorem create_event_null_title_or_organizer:
  assumes "dict_get data ''title'' = JNull \<or> dict_get data ''organizer_id'' = JNull"
  shows "snd (create_event sq fromisoformat (JDict data) s) = s
       \<and> fst (create_event sq fromisoformat (JDict data) s) \<noteq>
           Reply (JDict [(''message'', JStr ''Event created successfully'')]) 200
       \<and> (\<forall>d row. event_date_of fromisoformat (dict_get data ''date'') = Inr d
              \<and> event_row sq (dict_get data ''title'') (dict_get data ''description'') d
                   (dict_get data ''location'') (dict_get_default data ''price'' (JFloat 0))
                   (dict_get data ''organizer_id'') s = Inr row \<longrightarrow>
            create_event sq fromisoformat (JDict data) s = (Raised IntegrityError, s))"
  using assms
  by (auto simp: create_event_def add_event_null Let_def split: sum.splits exn.splits)

theorem create_event_null_title_or_organizer_witness:
  "create_event whole_numbers fromisoformat_date
      (JDict [(''title'', JStr ''Conf''), (''date'', JStr ''2024-05-01'')])
      create_tables = (Raised IntegrityError, create_tables)"
proof -
  let ?data = "[(''title'', JStr ''Conf''), (''date'', JStr ''2024-05-01'')]"
  have d: "event_date_of fromisoformat_date (dict_get ?data ''date'') = Inr (Some (2024, 5, 1))"
    by (simp add: event_date_of_def dict_get_def fromisoformat_date_def digit_of_def
        days_in_month_def)
  have r: "event_row whole_numbers (dict_get ?data ''title'') (dict_get ?data ''description'')
             (Some (2024, 5, 1)) (dict_get ?data ''location'')
             (dict_get_default ?data ''price'' (JFloat 0)) (dict_get ?data ''organizer_id'')
             create_tables =
           Inr \<lparr>event_id = 1, event_title = JStr ''Conf'', event_description = JNull,
                event_date = Some (2024, 5, 1), event_location = JNull, event_price = JFloat 0,
                event_organizer_id = JNull\<rparr>"
    by (simp add: event_row_def dict_get_def dict_get_default_def column_default_def
        bind_Float_def whole_numbers_def create_tables_def next_id_def)
  have "dict_get ?data ''title'' = JNull \<or> dict_get ?data ''organizer_id'' = JNull"
    by (simp add: dict_get_def)
  from create_event_null_title_or_organizer
    [OF this, of whole_numbers fromisoformat_date create_tables] d r
  show ?thesis by blast
qed

text \<open>
  C4 as stated says that such a call persists a row with nulls and returns the success
  message. A body with an organizer and no title, sent to the empty database:
\<close>

theorem create_event_without_title_counterexample:
  "create_event whole_numbers fromisoformat_date (JDict [(''organizer_id'', JInt 1)])
     create_tables = (Raised IntegrityError, create_tables)"
  by (simp add: create_event_def dict_get_def dict_get_default_def event_date_of_def
      add_event_def event_row_def column_default_def int64_def)

text \<open>
  C5. For every create-event call whose \<open>date\<close> is a non-empty string that
  \<^verbatim>\<open>datetime.fromisoformat\<close> does not parse, the call returns 400 with the error
  \<^verbatim>\<open>Invalid date format\<close> and the database is unchanged: no Event row is inserted.
\<close>

theorem create_event_malformed_date:
  assumes "dict_get data ''date'' = JStr ds" and "ds \<noteq> []" and "fromisoformat ds = None"
  shows "create_event sq fromisoformat (JDict data) s =
           (Reply (JDict [(''error'', JStr ''Invalid date format'')]) 400, s)"
  using assms by (simp add: create_event_def event_date_of_def)

theorem create_event_malformed_date_witness:
  "create_event whole_numbers fromisoformat_date
     (JDict [(''title'', JStr ''Conf''), (''organizer_id'', JInt 1), (''date'', JStr ''not-a-date'')])
     create_tables =
   (Reply (JDict [(''error'', JStr ''Invalid date format'')]) 400, create_tables)"
proof -
  have "fromisoformat_date ''not-a-date'' = None"
    by (simp add: fromisoformat_date_def)
  then show ?thesis
    using create_event_malformed_date [of
        "[(''title'', JStr ''Conf''), (''organizer_id'', JInt 1), (''date'', JStr ''not-a-date'')]"
        "''not-a-date''" fromisoformat_date whole_numbers "create_tables :: ymd db"]
    by (simp add: dict_get_def)
qed

text \<open>
  C10 (amended). A create-event call whose \<open>date\<close> is the empty string has the same
  outcome as the call with the \<open>date\<close> field left out, and that outcome is never the
  \<^verbatim>\<open>Invalid date format\<close> error. When its other fields can be bound to their columns
  and give a title and an organizer that are not NULL (the two columns the table
  requires), it returns the success message and appends that one Event row, whose date is
  null.
\<close>

theorem create_event_empty_date:
  assumes "dict_get data ''date'' = JStr []"
  shows "create_event sq fromisoformat (JDict data) s =
           create_event sq fromisoformat (JDict (dict_del ''date'' data)) s
       \<and> fst (create_event sq fromisoformat (JDict data) s) \<noteq>
           Reply (JDict [(''error'', JStr ''Invalid date format'')]) 400
       \<and> (\<forall>row. event_row sq (dict_get data ''title'') (dict_get data ''description'') None
                   (dict_get data ''location'') (dict_get_default data ''price'' (JFloat 0))
                   (dict_get data ''organizer_id'') s = Inr row
              \<and> event_title row \<noteq> JNull \<and> event_organizer_id row \<noteq> JNull \<longrightarrow>
            event_date row = None
            \<and> create_event sq fromisoformat (JDict data) s =
                (Reply (JDict [(''message'', JStr ''Event created successfully'')]) 200,
                 s\<lparr>events := events s @ [row]\<rparr>))"
proof -
  have same: "create_event sq fromisoformat (JDict data) s =
           create_event sq fromisoformat (JDict (dict_del ''date'' data)) s"
    using assms
    by (simp add: create_event_def dict_get_dict_del dict_get_default_dict_del event_date_of_def)
  have run: "create_event sq fromisoformat (JDict data) s =
      (case add_event sq (dict_get data ''title'') (dict_get data ''description'') None
              (dict_get data ''location'') (dict_get_default data ''price'' (JFloat 0))
              (dict_get data ''organizer_id'') s of
         Inl e \<Rightarrow> (Raised e, s)
       | Inr s' \<Rightarrow> (Reply (JDict [(''message'', JStr ''Event created successfully'')]) 200, s'))"
    using assms by (simp add: create_event_def event_date_of_def)
  have noerr: "fst (create_event sq fromisoformat (JDict data) s) \<noteq>
           Reply (JDict [(''error'', JStr ''Invalid date format'')]) 400"
    unfolding run by (simp split: sum.splits)
  have ok: "event_date row = None
            \<and> create_event sq fromisoformat (JDict data) s =
                (Reply (JDict [(''message'', JStr ''Event created successfully'')]) 200,
                 s\<lparr>events := events s @ [row]\<rparr>)"
    if "event_row sq (dict_get data ''title'') (dict_get data ''description'') None
          (dict_get data ''location'') (dict_get_default data ''price'' (JFloat 0))
          (dict_get data ''organizer_id'') s = Inr row"
      and "event_title row \<noteq> JNull" and "event_organizer_id row \<noteq> JNull" for row
    using that event_row_title [OF that(1)] by (simp add: run add_event_def)
  show ?thesis
    using same noerr ok by blast
qed

theorem create_event_empty_date_witness:
  "create_event whole_numbers fromisoformat_date
     (JDict [(''title'', JStr ''Conf''), (''organizer_id'', JInt 1), (''date'', JStr [])])
     create_tables =
   (Reply (JDict [(''message'', JStr ''Event created successfully'')]) 200,
    \<lparr>users = [],
     events = [\<lparr>event_id = 1, event_title = JStr ''Conf'', event_description = JNull,
                event_date = None, event_location = JNull, event_price = JFloat 0,
                event_organizer_id = JInt 1\<rparr>],
     registrations = [], payments = []\<rparr>)
  \<and> create_event whole_numbers fromisoformat_date
     (JDict [(''title'', JStr ''Conf''), (''organizer_id'', JInt 1), (''date'', JStr [])])
     create_tables =
    create_event whole_numbers fromisoformat_date
     (JDict [(''title'', JStr ''Conf''), (''organizer_id'', JInt 1)])
     create_tables"
proof -
  let ?data = "[(''title'', JStr ''Conf''), (''organizer_id'', JInt 1), (''date'', JStr [])]"
  let ?row = "\<lparr>event_id = 1, event_title = JStr ''Conf'', event_description = JNull,
                event_date = None :: ymd option, event_location = JNull, event_price = JFloat 0,
                event_organizer_id = JInt 1\<rparr>"
  let ?er = "event_row whole_numbers (dict_get ?data ''title'') (dict_get ?data ''description'')
             None (dict_get ?data ''location'')
             (dict_get_default ?data ''price'' (JFloat 0)) (dict_get ?data ''organizer_id'')
             create_tables"
  let ?run = "create_event whole_numbers fromisoformat_date (JDict ?data) create_tables"
  have r: "?er = Inr ?row"
    by (simp add: event_row_def dict_get_def dict_get_default_def column_default_def
        bind_Float_def create_tables_def next_id_def int64_def)
  have d: "dict_get ?data ''date'' = JStr []"
    by (simp add: dict_get_def)
  note t = create_event_empty_date [OF d, of whole_numbers fromisoformat_date create_tables]
  from t have same: "?run =
      create_event whole_numbers fromisoformat_date (JDict (dict_del ''date'' ?data)) create_tables"
    by blast
  from t have "?er = Inr ?row \<and> event_title ?row \<noteq> JNull \<and> event_organizer_id ?row \<noteq> JNull
      \<longrightarrow> event_date ?row = None
        \<and> ?run = (Reply (JDict [(''message'', JStr ''Event created successfully'')]) 200,
                   create_tables\<lparr>events := events create_tables @ [?row]\<rparr>)"
    by blast
  with r have "?run = (Reply (JDict [(''message'', JStr ''Event created successfully'')]) 200,
                   create_tables\<lparr>events := events create_tables @ [?row]\<rparr>)"
    by simp
  with same show ?thesis
    by (simp add: dict_del_def create_tables_def)
qed

text \<open>
  C10 as stated says that the call succeeds and persists a row. A body that holds the
  empty date and nothing else is refused by the two \<^verbatim>\<open>nullable=False\<close> columns:
\<close>

theorem create_event_empty_date_counterexample:
  "create_event whole_numbers fromisoformat_date (JDict [(''date'', JStr [])]) create_tables
     = (Raised IntegrityError, create_tables)"
  by (simp add: create_event_def dict_get_def dict_get_default_def event_date_of_def
      add_event_def event_row_def column_default_def)

subsection \<open>Registering to an event\<close>

text \<open>
  C9. A register-to-event call in which \<open>attendee_id\<close> or \<open>event_id\<close> is falsy
  (absent, null, 0, the empty string, ...) returns 400 with the error
  \<^verbatim>\<open>Missing attendee_id or event_id\<close> and leaves the database as it was, so no
  Registration row is inserted; the outcome is the one of the call with the falsy field
  left out.
\<close>

theorem register_to_event_falsy_id:
  assumes "\<not> truthy (dict_get data ''attendee_id'') \<or> \<not> truthy (dict_get data ''event_id'')"
  shows "register_to_event sq (JDict data) s =
           (Reply (JDict [(''error'', JStr ''Missing attendee_id or event_id'')]) 400, s)
       \<and> (\<not> truthy (dict_get data ''attendee_id'') \<longrightarrow>
            register_to_event sq (JDict (dict_del ''attendee_id'' data)) s =
            register_to_event sq (JDict data) s)
       \<and> (\<not> truthy (dict_get data ''event_id'') \<longrightarrow>
            register_to_event sq (JDict (dict_del ''event_id'' data)) s =
            register_to_event sq (JDict data) s)"
  using assms by (simp add: register_to_event_def dict_get_dict_del)

theorem register_to_event_falsy_id_witness:
  "register_to_event whole_numbers (JDict [(''attendee_id'', JInt 0), (''event_id'', JInt 1)])
     create_tables =
   (Reply (JDict [(''error'', JStr ''Missing attendee_id or event_id'')]) 400, create_tables)
  \<and> register_to_event whole_numbers (JDict [(''event_id'', JInt 1)]) create_tables =
    register_to_event whole_numbers (JDict [(''attendee_id'', JInt 0), (''event_id'', JInt 1)])
     create_tables"
  using register_to_event_falsy_id [of "[(''attendee_id'', JInt 0), (''event_id'', JInt 1)]"
      whole_numbers "create_tables :: ymd db"]
  by (simp add: dict_get_def dict_del_def)

subsection \<open>Payments\<close>

lemma payment_row_status:
  "payment_row sq now user_id' event_id' amount payment_method (JStr ''successful'') s = Inr row
   \<Longrightarrow> payment_status row = JStr ''successful''"
  by (auto simp: payment_row_def and_then_eq_Inr column_default_def)

lemma add_payment_cases:
  "(\<exists>e. add_payment sq now user_id' event_id' amount payment_method (JStr ''successful'') s = Inl e)
   \<or> (\<exists>row. add_payment sq now user_id' event_id' amount payment_method (JStr ''successful'') s
               = Inr (s\<lparr>payments := payments s @ [row]\<rparr>)
            \<and> payment_status row = JStr ''successful'')"
  by (cases "payment_row sq now user_id' event_id' amount payment_method (JStr ''successful'') s")
    (auto simp: add_payment_def dest: payment_row_status)




subsection \<open>Listing events\<close>

lemma get_events_loop_map:
  "get_events_loop isoformat es event_list = event_list @ map (event_dict isoformat) es"
  by (induction es arbitrary: event_list) simp_all

text \<open>
  C8. In every state, the list-events call replies 200 with a list that has one summary
  per stored Event row, in the order of the table (the order of insertion): the summary
  at position \<open>i\<close> carries the seven fields of the row at position \<open>i\<close>, and its
  \<open>date\<close> is the ISO string of the stored timestamp, or null when the stored date is
  null. The call does not change the database.
\<close>

theorem get_events_lists_every_event:
  "\<exists>js. get_events isoformat s = (Reply (JList js) 200, s)
      \<and> length js = length (events s)
      \<and> (\<forall>i < length (events s). \<exists>kv. js ! i = JDict kv
            \<and> dict_get kv ''id'' = JInt (event_id (events s ! i))
            \<and> dict_get kv ''title'' = event_title (events s ! i)
            \<and> dict_get kv ''description'' = event_description (events s ! i)
            \<and> dict_get kv ''date'' =
                 (case event_date (events s ! i) of
                    None \<Rightarrow> JNull
                  | Some d \<Rightarrow> JStr (isoformat d))
            \<and> dict_get kv ''location'' = event_location (events s ! i)
            \<and> dict_get kv ''price'' = event_price (events s ! i)
            \<and> dict_get kv ''organizer_id'' = event_organizer_id (events s ! i))"
proof -
  have "get_events isoformat s = (Reply (JList (map (event_dict isoformat) (events s))) 200, s)"
    by (simp add: get_events_def get_events_loop_map)
  moreover have "\<exists>kv. map (event_dict isoformat) (events s) ! i = JDict kv
            \<and> dict_get kv ''id'' = JInt (event_id (events s ! i))
            \<and> dict_get kv ''title'' = event_title (events s ! i)
            \<and> dict_get kv ''description'' = event_description (events s ! i)
            \<and> dict_get kv ''date'' =
                 (case event_date (events s ! i) of
                    None \<Rightarrow> JNull
                  | Some d \<Rightarrow> JStr (isoformat d))
            \<and> dict_get kv ''location'' = event_location (events s ! i)
            \<and> dict_get kv ''price'' = event_price (events s ! i)
            \<and> dict_get kv ''organizer_id'' = event_organizer_id (events s ! i)"
    if "i < length (events s)" for i
    using that by (simp add: event_dict_def dict_get_def split: option.split)
  ultimately show ?thesis by simp
qed

theorem get_events_lists_every_event_witness:
  "\<exists>js. get_events isoformat_date
     (\<lparr>users = [],
       events = [\<lparr>event_id = 1, event_title = JStr ''Conf'', event_description = JNull,
                  event_date = Some (2024, 5, 1), event_location = JNull,
                  event_price = JFloat 10, event_organizer_id = JInt 1\<rparr>,
                 \<lparr>event_id = 2, event_title = JStr ''Party'', event_description = JNull,
                  event_date = None, event_location = JNull,
                  event_price = JFloat 0, event_organizer_id = JInt 1\<rparr>],
       registrations = [], payments = []\<rparr> :: ymd db) =
      (Reply (JList js) 200,
       \<lparr>users = [],
       events = [\<lparr>event_id = 1, event_title = JStr ''Conf'', event_description = JNull,
                  event_date = Some (2024, 5, 1), event_location = JNull,
                  event_price = JFloat 10, event_organizer_id = JInt 1\<rparr>,
                 \<lparr>event_id = 2, event_title = JStr ''Party'', event_description = JNull,
                  event_date = None, event_location = JNull,
                  event_price = JFloat 0, event_organizer_id = JInt 1\<rparr>],
       registrations = [], payments = []\<rparr>)
    \<and> length js = 2
    \<and> (\<exists>kv. js ! 0 = JDict kv \<and> dict_get kv ''id'' = JInt 1
           \<and> dict_get kv ''title'' = JStr ''Conf''
           \<and> dict_get kv ''date'' = JStr ''2024-05-01T00:00:00'')
    \<and> (\<exists>kv. js ! 1 = JDict kv \<and> dict_get kv ''id'' = JInt 2
           \<and> dict_get kv ''title'' = JStr ''Party''
           \<and> dict_get kv ''date'' = JNull)"
proof -
  let ?s = "\<lparr>users = [],
       events = [\<lparr>event_id = 1, event_title = JStr ''Conf'', event_description = JNull,
                  event_date = Some (2024, 5, 1), event_location = JNull,
                  event_price = JFloat 10, event_organizer_id = JInt 1\<rparr>,
                 \<lparr>event_id = 2, event_title = JStr ''Party'', event_description = JNull,
                  event_date = None, event_location = JNull,
                  event_price = JFloat 0, event_organizer_id = JInt 1\<rparr>],
       registrations = [], payments = []\<rparr> :: ymd db"
  obtain js where run: "get_events isoformat_date ?s = (Reply (JList js) 200, ?s)"
    and len: "length js = length (events ?s)"
    and rows: "\<forall>i < length (events ?s). \<exists>kv. js ! i = JDict kv
            \<and> dict_get kv ''id'' = JInt (event_id (events ?s ! i))
            \<and> dict_get kv ''title'' = event_title (events ?s ! i)
            \<and> dict_get kv ''description'' = event_description (events ?s ! i)
            \<and> dict_get kv ''date'' =
                 (case event_date (events ?s ! i) of
                    None \<Rightarrow> JNull
                  | Some d \<Rightarrow> JStr (isoformat_date d))
            \<and> dict_get kv ''location'' = event_location (events ?s ! i)
            \<and> dict_get kv ''price'' = event_price (events ?s ! i)
            \<and> dict_get kv ''organizer_id'' = event_organizer_id (events ?s ! i)"
    using get_events_lists_every_event [of isoformat_date ?s] by (elim exE conjE)
  have e0: "\<exists>kv. js ! 0 = JDict kv \<and> dict_get kv ''id'' = JInt 1
       \<and> dict_get kv ''title'' = JStr ''Conf''
       \<and> dict_get kv ''date'' = JStr ''2024-05-01T00:00:00''"
    using rows [rule_format, of 0] by (auto simp: isoformat_date_def two_digits_def)
  have e1: "\<exists>kv. js ! 1 = JDict kv \<and> dict_get kv ''id'' = JInt 2
       \<and> dict_get kv ''title'' = JStr ''Party''
       \<and> dict_get kv ''date'' = JNull"
    using rows [rule_format, of 1] by auto
  have "length js = 2"
    using len by simp
  with run e0 e1 show ?thesis
    by (intro exI [of _ js] conjI) simp_all
qed

subsection \<open>The reachable states\<close>

text \<open>What each route does to the Payment table: nothing, or one new row at the end.\<close>

lemma register_user_payments: "payments (snd (register_user sq body s)) = payments s"
  by (cases body)
    (auto simp: register_user_def add_user_def Let_def and_then_eq_Inr split: sum.splits if_splits)

lemma login_user_payments: "payments (snd (login_user sq body s)) = payments s"
  by (cases body) (auto simp: login_user_def Let_def split: option.splits sum.splits)

lemma get_events_payments: "payments (snd (get_events isoformat s)) = payments s"
  by (simp add: get_events_def)

lemma get_event_payments: "payments (snd (get_event isoformat eid s)) = payments s"
  by (simp add: get_event_def split: option.splits)

lemma create_event_payments: "payments (snd (create_event sq fromisoformat body s)) = payments s"
  by (cases body)
    (auto simp: create_event_def add_event_def Let_def and_then_eq_Inr
      split: sum.splits exn.splits if_splits)

lemma register_to_event_payments: "payments (snd (register_to_event sq body s)) = payments s"
  by (cases body)
    (auto simp: register_to_event_def add_registration_def Let_def and_then_eq_Inr
      split: sum.splits if_splits)

lemma process_payment_payments:
  "payments (snd (process_payment sq now body s)) = payments s
   \<or> (\<exists>p. payments (snd (process_payment sq now body s)) = payments s @ [p]
          \<and> payment_status p = JStr ''successful'')"
proof (cases body)
  case (JDict data)
  from add_payment_cases [of sq now "dict_get data ''user_id''" "dict_get data ''event_id''"
      "dict_get data ''amount''" "dict_get data ''payment_method''" s]
  show ?thesis
    using JDict by (auto simp: process_payment_def Let_def)
qed (simp_all add: process_payment_def)

lemma api_payments:
  "payments (snd (api sq fromisoformat isoformat c s)) = payments s
   \<or> (\<exists>p. payments (snd (api sq fromisoformat isoformat c s)) = payments s @ [p]
          \<and> payment_status p = JStr ''successful'')"
  by (cases c)
    (simp_all add: register_user_payments login_user_payments get_events_payments
      get_event_payments create_event_payments register_to_event_payments
      process_payment_payments)

lemma reachable_payments_successful:
  "reachable sq fromisoformat isoformat s \<Longrightarrow> p \<in> set (payments s) \<Longrightarrow>
   payment_status p = JStr ''successful''"
proof (induction arbitrary: p rule: reachable.induct)
  case reachable_init
  then show ?case by (simp add: create_tables_def)
next
  case (reachable_step s c)
  from api_payments [of sq fromisoformat isoformat c s] reachable_step show ?case
    by auto
qed

text \<open>
  C7. In every state reachable through the routes from the empty tables, every Payment
  row has the status \<^verbatim>\<open>successful\<close>, so \<^verbatim>\<open>pending\<close> and \<^verbatim>\<open>failed\<close> never
  occur; and whatever request comes next, the Payment table before it is a prefix of the
  table after it: no request changes an existing row, its status included.
\<close>

theorem payment_status_always_successful:
  assumes "reachable sq fromisoformat isoformat s"
  shows "(\<forall>p \<in> set (payments s). payment_status p = JStr ''successful'')
       \<and> (\<forall>c. prefix (payments s) (payments (snd (api sq fromisoformat isoformat c s))))"
proof
  show "\<forall>p \<in> set (payments s). payment_status p = JStr ''successful''"
    using assms reachable_payments_successful by blast
next
  show "\<forall>c. prefix (payments s) (payments (snd (api sq fromisoformat isoformat c s)))"
  proof
    fix c
    from api_payments [of sq fromisoformat isoformat c s]
    show "prefix (payments s) (payments (snd (api sq fromisoformat isoformat c s)))"
      by auto
  qed
qed

theorem payment_status_always_successful_witness:
  "reachable whole_numbers fromisoformat_date isoformat_date
     \<lparr>users = [], events = [], registrations = [],
       payments = [\<lparr>payment_id = 1, payment_user_id = JInt 1, payment_event_id = JInt 1,
                    payment_amount = JFloat 10, payment_payment_method = JStr ''card'',
                    payment_status = JStr ''successful'',
                    payment_timestamp = Some (2024, 5, 1)\<rparr>]\<rparr>
   \<and> payment_status
       \<lparr>payment_id = 1, payment_user_id = JInt 1, payment_event_id = JInt 1,
        payment_amount = JFloat 10, payment_payment_method = JStr ''card'',
        payment_status = JStr ''successful'',
        payment_timestamp = Some ((2024, 5, 1) :: ymd)\<rparr> = JStr ''successful''
   \<and> prefix
       [\<lparr>payment_id = 1, payment_user_id = JInt 1, payment_event_id = JInt 1,
         payment_amount = JFloat 10, payment_payment_method = JStr ''card'',
         payment_status = JStr ''successful'',
         payment_timestamp = Some ((2024, 5, 1) :: ymd)\<rparr>]
       (payments (snd (api whole_numbers fromisoformat_date isoformat_date
          (Process_payment (2024, 5, 2)
             (JDict [(''user_id'', JInt 2), (''event_id'', JInt 1), (''amount'', JFloat 5),
                     (''payment_method'', JStr ''paypal'')]))
          \<lparr>users = [], events = [], registrations = [],
            payments = [\<lparr>payment_id = 1, payment_user_id = JInt 1, payment_event_id = JInt 1,
                    payment_amount = JFloat 10, payment_payment_method = JStr ''card'',
                    payment_status = JStr ''successful'',
                    payment_timestamp = Some (2024, 5, 1)\<rparr>]\<rparr>)))"
proof -
  let ?p = "\<lparr>payment_id = 1, payment_user_id = JInt 1, payment_event_id = JInt 1,
        payment_amount = JFloat 10, payment_payment_method = JStr ''card'',
        payment_status = JStr ''successful'',
        payment_timestamp = Some ((2024, 5, 1) :: ymd)\<rparr>"
  let ?s = "\<lparr>users = [], events = [], registrations = [], payments = [?p]\<rparr> :: ymd db"
  let ?c = "Process_payment ((2024, 5, 1) :: ymd)
             (JDict [(''user_id'', JInt 1), (''event_id'', JInt 1), (''amount'', JFloat 10),
                     (''payment_method'', JStr ''card'')])"
  have "snd (api whole_numbers fromisoformat_date isoformat_date ?c create_tables) = ?s"
    by (simp add: process_payment_def add_payment_def payment_row_def dict_get_def
        column_default_def bind_Float_def int64_def whole_numbers_def create_tables_def
        next_id_def Let_def)
  with reachable_step [OF reachable_init, of whole_numbers fromisoformat_date isoformat_date ?c]
  have r: "reachable whole_numbers fromisoformat_date isoformat_date ?s"
    by simp
  from payment_status_always_successful [OF r]
  have rows: "\<forall>p \<in> set (payments ?s). payment_status p = JStr ''successful''"
    and steps: "\<forall>c. prefix (payments ?s)
                 (payments (snd (api whole_numbers fromisoformat_date isoformat_date c ?s)))"
    by blast+
  have first: "payment_status ?p = JStr ''successful''"
    using rows by simp
  have "prefix (payments ?s) (payments (snd (api whole_numbers fromisoformat_date isoformat_date
          (Process_payment (2024, 5, 2)
             (JDict [(''user_id'', JInt 2), (''event_id'', JInt 1), (''amount'', JFloat 5),
                     (''payment_method'', JStr ''paypal'')])) ?s)))"
    using steps by blast
  with r first show ?thesis by simp
qed

text \<open>
  The User table of a reachable state satisfies its \<^verbatim>\<open>unique=True\<close> declaration,
  the hypothesis under which a login with a wrong password was shown to fail.
\<close>

lemma register_user_users:
  "users (snd (register_user sq body s)) = users s
   \<or> (\<exists>u. users (snd (register_user sq body s)) = users s @ [u]
          \<and> user_username u \<notin> user_username ` set (users s))"
  by (cases body)
    (auto simp: register_user_def add_user_def Let_def and_then_eq_Inr split: sum.splits if_splits)

lemma login_user_state: "snd (login_user sq body s) = s"
  by (cases body) (auto simp: login_user_def Let_def split: option.splits sum.splits)

lemma get_event_state: "snd (get_event isoformat eid s) = s"
  by (simp add: get_event_def split: option.splits)

lemma create_event_users: "users (snd (create_event sq fromisoformat body s)) = users s"
  by (cases body)
    (auto simp: create_event_def add_event_def Let_def and_then_eq_Inr
      split: sum.splits exn.splits if_splits)

lemma register_to_event_users: "users (snd (register_to_event sq body s)) = users s"
  by (cases body)
    (auto simp: register_to_event_def add_registration_def Let_def and_then_eq_Inr
      split: sum.splits if_splits)

lemma process_payment_users: "users (snd (process_payment sq now body s)) = users s"
  by (cases body)
    (auto simp: process_payment_def add_payment_def Let_def and_then_eq_Inr
      split: sum.splits if_splits)

lemma api_users:
  "users (snd (api sq fromisoformat isoformat c s)) = users s
   \<or> (\<exists>u. users (snd (api sq fromisoformat isoformat c s)) = users s @ [u]
          \<and> user_username u \<notin> user_username ` set (users s))"
  by (cases c)
    (simp_all add: register_user_users login_user_state get_events_def get_event_state
      create_event_users register_to_event_users process_payment_users)

lemma reachable_usernames_distinct:
  "reachable sq fromisoformat isoformat s \<Longrightarrow> distinct (map user_username (users s))"
proof (induction rule: reachable.induct)
  case reachable_init
  then show ?case by (simp add: create_tables_def)
next
  case (reachable_step s c)
  from api_users [of sq fromisoformat isoformat c s] reachable_step show ?case
    by auto
qed

end
